theory Spec2Isabelle
  imports Complex_Main
begin

section \<open>Plotting of generalization-across-time results (mne/viz/decoding.py)\<close>

text \<open>
  The module holds two functions, \<^verbatim>\<open>plot_gat_matrix\<close> and \<^verbatim>\<open>plot_gat_slice\<close>. Both read a
  \<^verbatim>\<open>GeneralizationAcrossTime\<close> object and call matplotlib. The object and matplotlib are
  not part of the module: the object is a record of the attributes the module reads, and
  the calls into matplotlib (and \<^verbatim>\<open>warnings.warn\<close>) are collected, in order, in a list.
  A function returns that list together with either the exception it raised or the
  figure it returned.

  Python floats are modelled as \<^typ>\<open>real\<close>: times, scores and limits are taken to be
  finite numbers and rounding is not modelled. The one non-finite float the module
  creates itself, \<^verbatim>\<open>np.nan\<close> as a chance level, has its own constructor.
\<close>

subsection \<open>Data\<close>

text \<open>
  The attributes of the \<^verbatim>\<open>gat\<close> object:
  \<^item> \<open>scores\<close> is \<^verbatim>\<open>gat.scores_\<close>, \<open>None\<close> when the attribute does not exist;
  \<^item> \<open>train_times\<close> is \<^verbatim>\<open>gat.train_times['times_']\<close> and \<open>train_step\<close> is
    \<^verbatim>\<open>gat.train_times['step']\<close>;
  \<^item> \<open>test_times\<close> is \<^verbatim>\<open>gat.test_times_['times_']\<close>, one array per row;
  \<^item> \<open>scorer_name\<close> is \<^verbatim>\<open>gat.scorer_.__name__\<close>, \<open>scorer_repr\<close> is \<^verbatim>\<open>repr(gat.scorer_)\<close>,
    and \<open>scorer_arg_name\<close> is \<^verbatim>\<open>gat.scorer.__name__\<close> (the attribute without the
    underscore, which the warning message reads);
  \<^item> \<open>y_train\<close> is \<^verbatim>\<open>gat.y_train_\<close>.
\<close>

record gat =
  scores :: "real list list option"
  train_times :: "real list"
  train_step :: real
  test_times :: "real list list"
  scorer_name :: string
  scorer_repr :: string
  scorer_arg_name :: string
  y_train :: "int list"

text \<open>The Python values a caller may pass as \<^verbatim>\<open>train_time\<close> or \<^verbatim>\<open>chance\<close>, by type.\<close>

datatype pyval =
    PyStr string
  | PyFloat real
  | NpFloat64 real
  | NpFloat32 real
  | PyInt int
  | PyBool bool
  | PyNone

datatype error =
    NotScoredError
  | NoClassifierAtTimeError real
  | InvalidSelectorError
  | IndexError
  | EmptySequenceError
  | ZeroDivisionError

text \<open>
  \<open>NotScoredError\<close> is the \<^verbatim>\<open>RuntimeError('Please score your data ...')\<close>,
  \<open>NoClassifierAtTimeError\<close> the \<^verbatim>\<open>ValueError("No classifier trained at %s ")\<close>,
  \<open>InvalidSelectorError\<close> the \<^verbatim>\<open>ValueError("train_time must be 'diagonal' or a float.")\<close>,
  \<open>EmptySequenceError\<close> the \<^verbatim>\<open>ValueError\<close> numpy raises for \<^verbatim>\<open>argmin\<close>, \<^verbatim>\<open>min\<close> and \<^verbatim>\<open>max\<close> of
  an empty array.
\<close>

datatype level = Num real | NaN

text \<open>
  The variable \<^verbatim>\<open>scores\<close> of \<^verbatim>\<open>plot_gat_slice\<close> holds either the whole grid
  (\<^verbatim>\<open>scores = gat.scores_\<close>) or one sequence.
\<close>

datatype slice = Grid "real list list" | Seq "real list"

fun flat :: "slice \<Rightarrow> real list" where
  "flat (Grid rows) = concat rows"
| "flat (Seq xs) = xs"

datatype axes = Created | Given nat

datatype figure = Figure_of axes

datatype call =
    Subplots
  | Imshow "real list list" "real list" real real string
  | Plot "real list" slice "(string \<times> string) list"
  | Axvline level "(string \<times> string) list"
  | Axhline level "(string \<times> string) list"
  | Set_xlabel string
  | Set_ylabel string
  | Set_title string
  | Set_xlim "real list"
  | Set_ylim "real list"
  | Colorbar
  | Legend "(string \<times> string) list"
  | Warn string
  | Show

text \<open>
  \<open>Imshow\<close> carries the image, \<^verbatim>\<open>extent\<close>, \<^verbatim>\<open>vmin\<close>, \<^verbatim>\<open>vmax\<close> and \<^verbatim>\<open>cmap\<close>
  (\<^verbatim>\<open>interpolation='nearest'\<close> and \<^verbatim>\<open>origin='lower'\<close> are constants of the call); the
  association lists are the keyword arguments of the call.
\<close>

record plot_args =
  title :: "string option"
  ax :: "nat option"
  do_show :: bool
  xlabel :: bool
  ylabel :: bool

record matrix_args = plot_args +
  vmin :: "real option"
  vmax :: "real option"
  tlim :: "real list option"
  cmap :: string
  colorbar :: bool

record slice_args = plot_args +
  train_time :: pyval
  xmin :: "real option"
  xmax :: "real option"
  ymin :: "real option"
  ymax :: "real option"
  color :: string
  legend :: bool
  chance :: pyval

definition matrix_defaults :: matrix_args where
  "matrix_defaults =
     \<lparr>title = None, ax = None, do_show = True, xlabel = True, ylabel = True,
      vmin = None, vmax = None, tlim = None, cmap = ''RdBu_r'', colorbar = True\<rparr>"

definition slice_defaults :: slice_args where
  "slice_defaults =
     \<lparr>title = None, ax = None, do_show = True, xlabel = True, ylabel = True,
      train_time = PyStr ''diagonal'', xmin = None, xmax = None, ymin = None, ymax = None,
      color = ''b'', legend = True, chance = PyBool True\<rparr>"

subsection \<open>Python and numpy primitives\<close>

definition bind :: "error + 'a \<Rightarrow> ('a \<Rightarrow> error + 'b) \<Rightarrow> error + 'b" where
  "bind m f = (case m of Inl e \<Rightarrow> Inl e | Inr x \<Rightarrow> f x)"

text \<open>\<^verbatim>\<open>xs[0]\<close> and \<^verbatim>\<open>xs[-1]\<close>.\<close>

definition first :: "'a list \<Rightarrow> error + 'a" where
  "first xs = (case xs of [] \<Rightarrow> Inl IndexError | x # _ \<Rightarrow> Inr x)"

definition final :: "'a list \<Rightarrow> error + 'a" where
  "final xs = (if xs = [] then Inl IndexError else Inr (last xs))"

text \<open>\<^verbatim>\<open>xs[i]\<close> for an index that is not negative.\<close>

definition item :: "'a list \<Rightarrow> nat \<Rightarrow> error + 'a" where
  "item xs i = (if i < length xs then Inr (xs ! i) else Inl IndexError)"

text \<open>\<^verbatim>\<open>np.min\<close> and \<^verbatim>\<open>np.max\<close> over all entries.\<close>

definition np_min :: "real list \<Rightarrow> error + real" where
  "np_min xs = (case xs of [] \<Rightarrow> Inl EmptySequenceError | x # r \<Rightarrow> Inr (fold min r x))"

definition np_max :: "real list \<Rightarrow> error + real" where
  "np_max xs = (case xs of [] \<Rightarrow> Inl EmptySequenceError | x # r \<Rightarrow> Inr (fold max r x))"

text \<open>
  \<^verbatim>\<open>a.argmin()\<close>: the first index of the least entry. \<open>argmin_from\<close> walks the rest of
  the array with the index of the next entry, the best index so far and its value.
\<close>

fun argmin_from :: "real list \<Rightarrow> nat \<Rightarrow> nat \<Rightarrow> real \<Rightarrow> nat" where
  "argmin_from [] i best v = best"
| "argmin_from (x # xs) i best v =
     (if x < v then argmin_from xs (Suc i) i x else argmin_from xs (Suc i) best v)"

definition argmin :: "real list \<Rightarrow> error + nat" where
  "argmin xs = (case xs of [] \<Rightarrow> Inl EmptySequenceError | x # r \<Rightarrow> Inr (argmin_from r 1 0 x))"

text \<open>\<^verbatim>\<open>np.abs(times - t)\<close>.\<close>

definition abs_diff :: "real list \<Rightarrow> real \<Rightarrow> real list" where
  "abs_diff ts t = map (\<lambda>x. \<bar>x - t\<bar>) ts"

text \<open>\<^verbatim>\<open>np.unique\<close>: the distinct entries in increasing order.\<close>

definition np_unique :: "'a::linorder list \<Rightarrow> 'a list" where
  "np_unique xs = sort (remdups xs)"

text \<open>\<^verbatim>\<open>s in t\<close> for strings.\<close>

fun starts_with :: "string \<Rightarrow> string \<Rightarrow> bool" where
  "starts_with [] t = True"
| "starts_with (c # s) [] = False"
| "starts_with (c # s) (d # t) = (c = d \<and> starts_with s t)"

fun contains :: "string \<Rightarrow> string \<Rightarrow> bool" where
  "contains s [] = (s = [])"
| "contains s (d # t) = (starts_with s (d # t) \<or> contains s t)"

subsection \<open>plot_gat_matrix\<close>

text \<open>
  Lines 62-63 of both functions: \<^verbatim>\<open>if ax is None: fig, ax = plt.subplots(1, 1)\<close>.
\<close>

definition get_axes :: "nat option \<Rightarrow> axes \<times> call list" where
  "get_axes a = (case a of None \<Rightarrow> (Created, [Subplots]) | Some h \<Rightarrow> (Given h, []))"

text \<open>The colour limits (lines 66-69) and the time limits (lines 72-75).\<close>

definition color_limits :: "real list list \<Rightarrow> real option \<Rightarrow> real option \<Rightarrow> error + real \<times> real" where
  "color_limits sc lo hi =
     bind (case lo of None \<Rightarrow> np_min (concat sc) | Some v \<Rightarrow> Inr v) (\<lambda>lo'.
     bind (case hi of None \<Rightarrow> np_max (concat sc) | Some v \<Rightarrow> Inr v) (\<lambda>hi'.
     Inr (lo', hi')))"

definition time_limits :: "gat \<Rightarrow> real list option \<Rightarrow> error + real list" where
  "time_limits g given =
     (case given of
        Some l \<Rightarrow> Inr l
      | None \<Rightarrow>
          (let tt_times = train_times g; tn_times = test_times g in
           bind (bind (first tn_times) first) (\<lambda>a.
           bind (bind (final tn_times) final) (\<lambda>b.
           bind (first tt_times) (\<lambda>c.
           bind (final tt_times) (\<lambda>d.
           Inr [a, b, c, d]))))))"

definition plot_gat_matrix :: "gat \<Rightarrow> matrix_args \<Rightarrow> call list \<times> (error + figure)" where
  "plot_gat_matrix g a =
     (case scores g of
        None \<Rightarrow> ([], Inl NotScoredError)
      | Some sc \<Rightarrow>
          (case get_axes (ax a) of (axs, cs0) \<Rightarrow>
           (case bind (color_limits sc (vmin a) (vmax a)) (\<lambda>cl.
                  bind (time_limits g (tlim a)) (\<lambda>lims. Inr (cl, lims))) of
              Inl e \<Rightarrow> (cs0, Inl e)
            | Inr ((lo, hi), lims) \<Rightarrow>
                (cs0
                 @ [Imshow sc lims lo hi (cmap a)]
                 @ (if xlabel a then [Set_xlabel ''Testing Time (s)''] else [])
                 @ (if ylabel a then [Set_ylabel ''Training Time (s)''] else [])
                 @ (case title a of None \<Rightarrow> [] | Some t \<Rightarrow> [Set_title t])
                 @ [Axvline (Num 0) [(''color'', ''k'')],
                    Axhline (Num 0) [(''color'', ''k'')],
                    Set_xlim (take 2 lims),
                    Set_ylim (drop 2 lims)]
                 @ (if colorbar a then [Colorbar] else [])
                 @ (if do_show a then [Show] else []),
                 Inr (Figure_of axs)))))"

subsection \<open>plot_gat_slice\<close>

text \<open>
  Line 152, \<^verbatim>\<open>np.all(np.unique([len(t) for t in gat.test_times_['times_']]) == 1)\<close>:
  every distinct length of a row of test times is 1.
\<close>

definition diagonal_only :: "real list list \<Rightarrow> bool" where
  "diagonal_only tn = list_all (\<lambda>n. n = 1) (np_unique (map length tn))"

text \<open>
  Lines 159-164, the inner loop for the row \<open>i\<close> with training time \<open>t\<close>: it runs over
  the rows of test times that are left and updates the array \<open>out\<close> (the variable
  \<^verbatim>\<open>scores\<close>). The index \<open>j\<close> that \<open>argmin\<close> returns lies inside \<open>tts\<close>
  (lemma \<open>argmin_less\<close> below), so \<^verbatim>\<open>test_times[j]\<close> cannot fail; \<^verbatim>\<open>gat.scores_[i][j]\<close>
  can, and is read before \<^verbatim>\<open>scores[i]\<close> is assigned.
\<close>

fun scan_test_times ::
  "real list list \<Rightarrow> real \<Rightarrow> nat \<Rightarrow> real \<Rightarrow> real list list \<Rightarrow> real list \<Rightarrow> error + real list" where
  "scan_test_times sc step i t [] out = Inr out"
| "scan_test_times sc step i t (tts # rest) out =
     (case argmin (abs_diff tts t) of
        Inl e \<Rightarrow> Inl e
      | Inr j \<Rightarrow>
          if t - tts ! j \<le> step
          then (case bind (item sc i) (\<lambda>row. item row j) of
                  Inl e \<Rightarrow> Inl e
                | Inr v \<Rightarrow> scan_test_times sc step i t rest (out[i := v]))
          else scan_test_times sc step i t rest out)"

text \<open>Lines 158-164, the outer loop over \<^verbatim>\<open>enumerate(gat.train_times['times_'])\<close>.\<close>

fun each_train_time ::
  "real list list \<Rightarrow> real \<Rightarrow> real list list \<Rightarrow> nat \<Rightarrow> real list \<Rightarrow> real list \<Rightarrow> error + real list" where
  "each_train_time sc step tn i [] out = Inr out"
| "each_train_time sc step tn i (t # ts) out =
     (case scan_test_times sc step i t tn out of
        Inl e \<Rightarrow> Inl e
      | Inr out' \<Rightarrow> each_train_time sc step tn (Suc i) ts out')"

text \<open>Lines 157-164: the array of zeros and the two loops.\<close>

definition diagonal :: "gat \<Rightarrow> real list list \<Rightarrow> error + real list" where
  "diagonal g sc =
     each_train_time sc (train_step g) (test_times g) 0 (train_times g)
       (replicate (length sc) 0)"

text \<open>\<^verbatim>\<open>type(train_time) in [float, np.float64, np.float32]\<close>, with the value.\<close>

fun float_value :: "pyval \<Rightarrow> real option" where
  "float_value (PyFloat x) = Some x"
| "float_value (NpFloat64 x) = Some x"
| "float_value (NpFloat32 x) = Some x"
| "float_value v = None"

text \<open>Lines 152-171: the value of the variable \<^verbatim>\<open>scores\<close>.\<close>

definition get_scores :: "gat \<Rightarrow> real list list \<Rightarrow> pyval \<Rightarrow> error + slice" where
  "get_scores g sc sel =
     (if diagonal_only (test_times g) then Inr (Grid sc)
      else if sel = PyStr ''diagonal'' then bind (diagonal g sc) (\<lambda>out. Inr (Seq out))
      else (case float_value sel of
              Some x \<Rightarrow>
                bind (argmin (abs_diff (train_times g) x)) (\<lambda>idx.
                  if idx = 0 then Inl (NoClassifierAtTimeError x)
                  else bind (item sc idx) (\<lambda>row. Inr (Seq row)))
            | None \<Rightarrow> Inl InvalidSelectorError))"

text \<open>
  Lines 175-185, the chance level: the calls the block makes. The comparison
  \<^verbatim>\<open>gat.scorer_.__name__ is 'accuracy_score'\<close> is taken as equality of the two strings.
\<close>

definition estimate_chance :: "gat \<Rightarrow> error + level \<times> call list" where
  "estimate_chance g =
     (if scorer_name g = ''accuracy_score'' then
        (let n = length (np_unique (y_train g))
         in if n = 0 then Inl ZeroDivisionError else Inr (Num (1 / real n), []))
      else if scorer_name g = ''roc_auc_score'' then Inr (Num 0.5, [])
      else Inr (NaN, [Warn (''Cannot find chance level from '' @ scorer_arg_name g
                            @ '', specify chance level'')]))"

definition find_chance :: "gat \<Rightarrow> pyval \<Rightarrow> error + call list" where
  "find_chance g c =
     (if c = PyBool True then
        bind (estimate_chance g) (\<lambda>(c', warned).
          Inr (warned @ [Axhline c' [(''color'', ''k''), (''linestyle'', ''--''),
                                     (''label'', ''Chance level'')]]))
      else Inr [])"

text \<open>Lines 188-191.\<close>

definition y_limits :: "slice \<Rightarrow> real option \<Rightarrow> real option \<Rightarrow> error + real \<times> real" where
  "y_limits s lo hi =
     bind (case lo of None \<Rightarrow> np_min (flat s) | Some v \<Rightarrow> Inr v) (\<lambda>lo'.
     bind (case hi of None \<Rightarrow> np_max (flat s) | Some v \<Rightarrow> Inr v) (\<lambda>hi'.
     Inr (lo', hi')))"

text \<open>Lines 192-203, which raise nothing.\<close>

definition decorate :: "gat \<Rightarrow> slice_args \<Rightarrow> real \<times> real \<Rightarrow> call list" where
  "decorate g a yl =
     [Set_ylim [fst yl, snd yl]]
     @ (case (xmin a, xmax a) of (Some l, Some r) \<Rightarrow> [Set_xlim [l, r]] | _ \<Rightarrow> [])
     @ (if xlabel a then [Set_xlabel ''Time (s)''] else [])
     @ (if ylabel a
        then [Set_ylabel (''Classif. score (''
                          @ (if contains ''roc'' (scorer_repr g) then ''AUC'' else ''%'')
                          @ '')'')]
        else [])
     @ (if legend a then [Legend [(''loc'', ''best'')]] else [])
     @ (if do_show a then [Show] else [])"

definition plot_gat_slice :: "gat \<Rightarrow> slice_args \<Rightarrow> call list \<times> (error + figure)" where
  "plot_gat_slice g a =
     (case scores g of
        None \<Rightarrow> ([], Inl NotScoredError)
      | Some sc \<Rightarrow>
          (case get_axes (ax a) of (axs, cs0) \<Rightarrow>
           (case get_scores g sc (train_time a) of
              Inl e \<Rightarrow> (cs0, Inl e)
            | Inr s \<Rightarrow>
                (let cs1 = cs0 @ [Plot (train_times g) s
                                    [(''color'', color a), (''label'', ''Classif. score'')]]
                 in case find_chance g (chance a) of
                      Inl e \<Rightarrow> (cs1, Inl e)
                    | Inr cc \<Rightarrow>
                        (let cs2 = cs1 @ cc
                                   @ (case title a of None \<Rightarrow> [] | Some t \<Rightarrow> [Set_title t])
                         in case y_limits s (ymin a) (ymax a) of
                              Inl e \<Rightarrow> (cs2, Inl e)
                            | Inr yl \<Rightarrow> (cs2 @ decorate g a yl, Inr (Figure_of axs)))))))"

subsection \<open>Notions the statements below use\<close>

text \<open>
  \<open>closest_index ts x i\<close>: \<open>i\<close> is the first index of \<open>ts\<close> at the least distance from
  \<open>x\<close>, which is what "the index of the training time closest to the selector" means
  for \<^verbatim>\<open>argmin\<close>.
\<close>

definition closest_index :: "real list \<Rightarrow> real \<Rightarrow> nat \<Rightarrow> bool" where
  "closest_index ts x i =
     (i < length ts \<and> list_all (\<lambda>y. \<bar>ts ! i - x\<bar> \<le> \<bar>y - x\<bar>) ts
      \<and> list_all (\<lambda>y. \<bar>ts ! i - x\<bar> < \<bar>y - x\<bar>) (take i ts))"

text \<open>
  The description of the diagonal extraction in words, to be compared with the loops:
  \<open>nearest tts t\<close> is the index of the test time of the row \<open>tts\<close> nearest to \<open>t\<close>,
  \<open>passes step t tts\<close> says that the row passes the check of line 163, and
  \<open>diagonal_value\<close> is the entry of \<^verbatim>\<open>gat.scores_[i]\<close> at the nearest index of the last row
  of test times that passes, and 0 when no row passes.
\<close>

definition nearest :: "real list \<Rightarrow> real \<Rightarrow> nat" where
  "nearest tts t = (case argmin (abs_diff tts t) of Inl e \<Rightarrow> 0 | Inr j \<Rightarrow> j)"

definition passes :: "real \<Rightarrow> real \<Rightarrow> real list \<Rightarrow> bool" where
  "passes step t tts = (tts \<noteq> [] \<and> t - tts ! nearest tts t \<le> step)"

definition diagonal_value :: "real list list \<Rightarrow> real \<Rightarrow> real list list \<Rightarrow> nat \<Rightarrow> real \<Rightarrow> real" where
  "diagonal_value sc step tn i t =
     (if filter (passes step t) tn = [] then 0
      else sc ! i ! nearest (last (filter (passes step t) tn)) t)"

text \<open>Inputs for the examples.\<close>

definition gat_square :: gat where
  "gat_square =
     \<lparr>scores = Some [[0.7, 0.8], [0.9, 0.6]], train_times = [0, 1], train_step = 1,
      test_times = [[0, 1], [0, 1]], scorer_name = ''accuracy_score'',
      scorer_repr = ''<function accuracy_score at 0x7f3a>'',
      scorer_arg_name = ''accuracy_score'', y_train = [0, 1, 2, 3, 0, 1]\<rparr>"

definition gat_far :: gat where
  "gat_far = gat_square\<lparr>test_times := [[5, 6], [5, 6]]\<rparr>"

definition gat_column :: gat where
  "gat_column = gat_square\<lparr>scores := Some [[0.7], [0.9]], test_times := [[0], [1]]\<rparr>"

definition gat_shifted :: gat where
  "gat_shifted =
     gat_square\<lparr>scores := Some [[0.1, 0.2], [0.3, 0.4, 0.5]], train_times := [1, 2],
                test_times := [[1, 2], [0, 1, 2]]\<rparr>"

definition gat_unscored :: gat where
  "gat_unscored = gat_square\<lparr>scores := None\<rparr>"

section \<open>Properties of the primitives\<close>

lemma argmin_from_spec:
  "best < length pre \<Longrightarrow> v = pre ! best \<Longrightarrow> (\<forall>k<length pre. v \<le> pre ! k) \<Longrightarrow>
   (\<forall>k<best. v < pre ! k) \<Longrightarrow> argmin_from xs (length pre) best v = r \<Longrightarrow>
   r < length (pre @ xs) \<and> (\<forall>k<length (pre @ xs). (pre @ xs) ! r \<le> (pre @ xs) ! k)
     \<and> (\<forall>k<r. (pre @ xs) ! r < (pre @ xs) ! k)"
proof (induction xs arbitrary: pre best v)
  case Nil
  then show ?case by simp
next
  case (Cons x xs)
  show ?case
  proof (cases "x < v")
    case True
    have run: "argmin_from xs (length (pre @ [x])) (length pre) x = r"
      using Cons.prems(5) True by simp
    have a: "length pre < length (pre @ [x])" by simp
    have b: "x = (pre @ [x]) ! length pre" by simp
    have c: "\<forall>k<length (pre @ [x]). x \<le> (pre @ [x]) ! k"
      using Cons.prems(3) True by (auto simp: nth_append less_Suc_eq)
    have d: "\<forall>k<length pre. x < (pre @ [x]) ! k"
      using Cons.prems(3) True by (auto simp: nth_append)
    from Cons.IH[OF a b c d run] show ?thesis by simp
  next
    case False
    have run: "argmin_from xs (length (pre @ [x])) best v = r"
      using Cons.prems(5) False by simp
    have a: "best < length (pre @ [x])" using Cons.prems(1) by simp
    have b: "v = (pre @ [x]) ! best" using Cons.prems(1,2) by (simp add: nth_append)
    have c: "\<forall>k<length (pre @ [x]). v \<le> (pre @ [x]) ! k"
      using Cons.prems(3) False by (auto simp: nth_append less_Suc_eq)
    have d: "\<forall>k<best. v < (pre @ [x]) ! k"
      using Cons.prems(1,4) by (auto simp: nth_append)
    from Cons.IH[OF a b c d run] show ?thesis by simp
  qed
qed

text \<open>\<open>argmin\<close> returns the first index of a least entry.\<close>

lemma argmin_first_least:
  assumes "argmin xs = Inr j"
  shows "j < length xs \<and> (\<forall>k<length xs. xs ! j \<le> xs ! k) \<and> (\<forall>k<j. xs ! j < xs ! k)"
proof (cases xs)
  case Nil
  with assms show ?thesis by (simp add: argmin_def)
next
  case (Cons x r)
  with assms have run: "argmin_from r (length [x]) 0 x = j" by (simp add: argmin_def)
  from argmin_from_spec[of 0 "[x]" x r j, OF _ _ _ _ run] Cons show ?thesis by simp
qed

lemma argmin_less: "argmin xs = Inr j \<Longrightarrow> j < length xs"
  using argmin_first_least by blast

lemma argmin_defined: "xs \<noteq> [] \<Longrightarrow> \<exists>j. argmin xs = Inr j"
  by (cases xs) (simp_all add: argmin_def)

lemma argmin_error: "argmin xs = Inl e \<Longrightarrow> xs = [] \<and> e = EmptySequenceError"
  by (cases xs) (simp_all add: argmin_def)

lemma closest_index_nth:
  "closest_index ts x i =
     (i < length ts \<and> (\<forall>k<length ts. \<bar>ts ! i - x\<bar> \<le> \<bar>ts ! k - x\<bar>)
      \<and> (\<forall>k<i. \<bar>ts ! i - x\<bar> < \<bar>ts ! k - x\<bar>))"
  by (auto simp: closest_index_def list_all_length)

lemma closest_index_unique:
  assumes "closest_index ts x i" "closest_index ts x j"
  shows "i = j"
proof (rule ccontr)
  assume "i \<noteq> j"
  then consider "i < j" | "j < i" by linarith
  then show False
  proof cases
    case 1
    with assms show False unfolding closest_index_nth
      by (metis not_le)
  next
    case 2
    with assms show False unfolding closest_index_nth
      by (metis not_le)
  qed
qed

text \<open>The index \<^verbatim>\<open>np.abs(ts - x).argmin()\<close> is the closest index, and the only one.\<close>

lemma argmin_closest:
  "argmin (abs_diff ts x) = Inr i \<longleftrightarrow> closest_index ts x i"
proof
  assume "argmin (abs_diff ts x) = Inr i"
  from argmin_first_least[OF this] show "closest_index ts x i"
    by (auto simp: closest_index_nth abs_diff_def)
next
  assume c: "closest_index ts x i"
  then have "abs_diff ts x \<noteq> []" by (auto simp: closest_index_def abs_diff_def)
  then obtain j where j: "argmin (abs_diff ts x) = Inr j" using argmin_defined by blast
  from argmin_first_least[OF j] have "closest_index ts x j"
    by (auto simp: closest_index_nth abs_diff_def)
  with c have "i = j" by (rule closest_index_unique)
  with j show "argmin (abs_diff ts x) = Inr i" by simp
qed

lemma diagonal_only_iff: "diagonal_only tn \<longleftrightarrow> (\<forall>tts\<in>set tn. length tts = 1)"
  by (auto simp: diagonal_only_def np_unique_def list_all_iff)

lemma length_np_unique: "length (np_unique xs) = card (set xs)"
  by (simp add: np_unique_def length_remdups_card_conv)

lemma first_nonempty: "xs \<noteq> [] \<Longrightarrow> first xs = Inr (hd xs)"
  by (cases xs) (simp_all add: first_def)

lemma final_nonempty: "xs \<noteq> [] \<Longrightarrow> final xs = Inr (last xs)"
  by (simp add: final_def)

text \<open>The two loops of the diagonal extraction, when no read fails.\<close>

lemma nearest_argmin: "tts \<noteq> [] \<Longrightarrow> argmin (abs_diff tts t) = Inr (nearest tts t)"
  using argmin_defined[of "abs_diff tts t"] by (auto simp: nearest_def abs_diff_def)

text \<open>\<open>nearest\<close> is the index of the nearest test time of a row that is not empty.\<close>

lemma nearest_closest: "tts \<noteq> [] \<Longrightarrow> closest_index tts t (nearest tts t)"
  using nearest_argmin[of tts t] by (simp add: argmin_closest)

lemma scan_test_times_value:
  assumes "\<forall>tts\<in>set tn. tts \<noteq> []"
    and "i < length sc"
    and "\<forall>tts\<in>set tn. passes step t tts \<longrightarrow> nearest tts t < length (sc ! i)"
  shows "scan_test_times sc step i t tn out =
           Inr (if filter (passes step t) tn = [] then out
                else out[i := sc ! i ! nearest (last (filter (passes step t) tn)) t])"
  using assms
proof (induction tn arbitrary: out)
  case Nil
  then show ?case by simp
next
  case (Cons tts rest)
  have ne: "tts \<noteq> []" using Cons.prems(1) by simp
  have am: "argmin (abs_diff tts t) = Inr (nearest tts t)" using ne by (rule nearest_argmin)
  have ih: "\<And>out. scan_test_times sc step i t rest out =
           Inr (if filter (passes step t) rest = [] then out
                else out[i := sc ! i ! nearest (last (filter (passes step t) rest)) t])"
    using Cons.IH Cons.prems by simp
  show ?case
  proof (cases "passes step t tts")
    case True
    then have le: "t - tts ! nearest tts t \<le> step" by (simp add: passes_def)
    have rng: "nearest tts t < length (sc ! i)" using Cons.prems(3) True by simp
    have rd: "bind (item sc i) (\<lambda>row. item row (nearest tts t)) = Inr (sc ! i ! nearest tts t)"
      using Cons.prems(2) rng by (simp add: bind_def item_def)
    show ?thesis using True le am rd ih by simp
  next
    case False
    then have "\<not> t - tts ! nearest tts t \<le> step" using ne by (simp add: passes_def)
    then show ?thesis using False am ih by simp
  qed
qed

lemma each_train_time_value:
  assumes "\<forall>tts\<in>set tn. tts \<noteq> []"
    and "i + length ts \<le> length sc"
    and "length out = length sc"
    and "\<forall>k<length ts. \<forall>tts\<in>set tn. passes step (ts ! k) tts
            \<longrightarrow> nearest tts (ts ! k) < length (sc ! (i + k))"
  shows "\<exists>out'. each_train_time sc step tn i ts out = Inr out' \<and> length out' = length out
           \<and> (\<forall>k<length out. out' ! k =
                 (if i \<le> k \<and> k < i + length ts \<and> filter (passes step (ts ! (k - i))) tn \<noteq> []
                  then sc ! k ! nearest (last (filter (passes step (ts ! (k - i))) tn)) (ts ! (k - i))
                  else out ! k))"
  using assms
proof (induction ts arbitrary: i out)
  case Nil
  then show ?case by simp
next
  case (Cons t ts)
  let ?out1 = "if filter (passes step t) tn = [] then out
               else out[i := sc ! i ! nearest (last (filter (passes step t) tn)) t]"
  have i: "i < length sc" using Cons.prems(2) by simp
  have r0: "\<forall>tts\<in>set tn. passes step t tts \<longrightarrow> nearest tts t < length (sc ! i)"
    using Cons.prems(4) by force
  have inner: "scan_test_times sc step i t tn out = Inr ?out1"
    using scan_test_times_value[OF Cons.prems(1) i r0] .
  have l1: "length ?out1 = length sc" using Cons.prems(3) by simp
  have b: "Suc i + length ts \<le> length sc" using Cons.prems(2) by simp
  have r: "\<forall>k<length ts. \<forall>tts\<in>set tn. passes step (ts ! k) tts
            \<longrightarrow> nearest tts (ts ! k) < length (sc ! (Suc i + k))"
  proof (intro allI impI ballI)
    fix k tts assume "k < length ts" "tts \<in> set tn" "passes step (ts ! k) tts"
    then show "nearest tts (ts ! k) < length (sc ! (Suc i + k))"
      using Cons.prems(4)[rule_format, of "Suc k" tts] by simp
  qed
  from Cons.IH[OF Cons.prems(1) b l1 r]
  obtain out' where o: "each_train_time sc step tn (Suc i) ts ?out1 = Inr out'"
    and lo: "length out' = length ?out1"
    and v: "\<forall>k<length ?out1. out' ! k =
                 (if Suc i \<le> k \<and> k < Suc i + length ts \<and> filter (passes step (ts ! (k - Suc i))) tn \<noteq> []
                  then sc ! k ! nearest (last (filter (passes step (ts ! (k - Suc i))) tn)) (ts ! (k - Suc i))
                  else ?out1 ! k)"
    by blast
  have run: "each_train_time sc step tn i (t # ts) out = Inr out'"
    using inner o by simp
  have len: "length out' = length out" using lo l1 Cons.prems(3) by simp
  have vals: "\<forall>k<length out. out' ! k =
                 (if i \<le> k \<and> k < i + length (t # ts) \<and> filter (passes step ((t # ts) ! (k - i))) tn \<noteq> []
                  then sc ! k ! nearest (last (filter (passes step ((t # ts) ! (k - i))) tn)) ((t # ts) ! (k - i))
                  else out ! k)"
  proof (intro allI impI)
    fix k assume k: "k < length out"
    then have k1: "k < length ?out1" using l1 Cons.prems(3) by simp
    consider "k < i" | "k = i" | "i < k" by linarith
    then show "out' ! k =
                 (if i \<le> k \<and> k < i + length (t # ts) \<and> filter (passes step ((t # ts) ! (k - i))) tn \<noteq> []
                  then sc ! k ! nearest (last (filter (passes step ((t # ts) ! (k - i))) tn)) ((t # ts) ! (k - i))
                  else out ! k)"
    proof cases
      case 1
      then show ?thesis using v[rule_format, OF k1] by simp
    next
      case 2
      then show ?thesis using v[rule_format, OF k1] k by simp
    next
      case 3
      then have e: "(t # ts) ! (k - i) = ts ! (k - Suc i)" by (simp add: nth_Cons')
      from 3 show ?thesis using v[rule_format, OF k1] e by auto
    qed
  qed
  from run len vals show ?case by blast
qed

lemma diagonal_values:
  assumes "\<forall>tts\<in>set (test_times g). tts \<noteq> []"
    and "length (train_times g) = length sc"
    and "\<forall>i<length sc. \<forall>tts\<in>set (test_times g). passes (train_step g) (train_times g ! i) tts
            \<longrightarrow> nearest tts (train_times g ! i) < length (sc ! i)"
  shows "diagonal g sc =
           Inr (map (\<lambda>i. diagonal_value sc (train_step g) (test_times g) i (train_times g ! i))
                  [0..<length sc])"
proof -
  have b: "0 + length (train_times g) \<le> length sc" using assms(2) by simp
  have l: "length (replicate (length sc) (0::real)) = length sc" by simp
  have r: "\<forall>k<length (train_times g). \<forall>tts\<in>set (test_times g).
             passes (train_step g) (train_times g ! k) tts
             \<longrightarrow> nearest tts (train_times g ! k) < length (sc ! (0 + k))"
    using assms(2,3) by simp
  from each_train_time_value[OF assms(1) b l r]
  obtain out' where o: "diagonal g sc = Inr out'" and lo: "length out' = length sc"
    and v: "\<forall>k<length sc. out' ! k =
              (if k < length (train_times g) \<and> filter (passes (train_step g) (train_times g ! k)) (test_times g) \<noteq> []
               then sc ! k ! nearest (last (filter (passes (train_step g) (train_times g ! k)) (test_times g))) (train_times g ! k)
               else replicate (length sc) 0 ! k)"
    by (auto simp: diagonal_def)
  have "out' = map (\<lambda>i. diagonal_value sc (train_step g) (test_times g) i (train_times g ! i))
                  [0..<length sc]"
    using lo v assms(2) by (intro nth_equalityI) (auto simp: diagonal_value_def)
  with o show ?thesis by simp
qed

text \<open>The errors each part of \<^verbatim>\<open>plot_gat_slice\<close> can raise.\<close>

lemma scan_test_times_error:
  "scan_test_times sc step i t tn out = Inl e \<Longrightarrow> e = IndexError \<or> e = EmptySequenceError"
proof (induction tn arbitrary: out)
  case Nil
  then show ?case by simp
next
  case (Cons tts rest)
  then show ?case
    by (auto simp: bind_def item_def split: sum.splits if_splits dest: argmin_error)
qed

lemma each_train_time_error:
  "each_train_time sc step tn i ts out = Inl e \<Longrightarrow> e = IndexError \<or> e = EmptySequenceError"
proof (induction ts arbitrary: i out)
  case Nil
  then show ?case by simp
next
  case (Cons t ts)
  then show ?case
    by (auto split: sum.splits dest: scan_test_times_error)
qed

lemma get_scores_invalid:
  "get_scores g sc sel = Inl InvalidSelectorError \<longleftrightarrow>
     (\<not> diagonal_only (test_times g) \<and> sel \<noteq> PyStr ''diagonal'' \<and> float_value sel = None)"
  by (auto simp: get_scores_def diagonal_def bind_def item_def
           split: sum.splits option.splits if_splits
           dest: each_train_time_error argmin_error)

lemma find_chance_error: "find_chance g c = Inl e \<Longrightarrow> e = ZeroDivisionError"
  by (auto simp: find_chance_def estimate_chance_def bind_def Let_def split: if_splits sum.splits)

lemma y_limits_error: "y_limits s lo hi = Inl e \<Longrightarrow> e = EmptySequenceError"
  by (auto simp: y_limits_def bind_def np_min_def np_max_def
           split: option.splits list.splits sum.splits)

text \<open>Unfolding the model on a given input.\<close>

lemmas run_defs =
  plot_gat_slice_def plot_gat_matrix_def get_axes_def get_scores_def diagonal_def
  find_chance_def estimate_chance_def y_limits_def decorate_def color_limits_def time_limits_def
  bind_def item_def first_def final_def np_min_def np_max_def argmin_def abs_diff_def
  np_unique_def slice_defaults_def matrix_defaults_def

lemmas input_defs = gat_square_def gat_far_def gat_column_def gat_shifted_def gat_unscored_def

section \<open>Scores that do not exist\<close>

text \<open>
  C7. When the attribute \<^verbatim>\<open>scores_\<close> does not exist, \<^verbatim>\<open>plot_gat_matrix\<close> and
  \<^verbatim>\<open>plot_gat_slice\<close> both raise the "not scored" error, and they have made no call at all
  by then: not even \<^verbatim>\<open>plt.subplots\<close>, which would create the drawing surface.
\<close>

theorem unscored_raises_before_drawing:
  assumes "scores g = None"
  shows "plot_gat_matrix g ma = ([], Inl NotScoredError)
         \<and> plot_gat_slice g sa = ([], Inl NotScoredError)"
  using assms by (simp add: plot_gat_matrix_def plot_gat_slice_def)

theorem unscored_raises_before_drawing_witness:
  "scores gat_unscored = None
   \<and> plot_gat_matrix gat_unscored matrix_defaults = ([], Inl NotScoredError)
   \<and> plot_gat_slice gat_unscored slice_defaults = ([], Inl NotScoredError)"
proof -
  have h: "scores gat_unscored = None" by (simp add: gat_unscored_def)
  show ?thesis
    using h unscored_raises_before_drawing [OF h, of matrix_defaults slice_defaults] by simp
qed

section \<open>The time limits of the matrix plot\<close>

text \<open>
  C8. Without \<^verbatim>\<open>tlim\<close>, \<^verbatim>\<open>plot_gat_matrix\<close> takes as the four bounds the first test time
  of the first row, the last test time of the last row, the first training time and the
  last training time, in this order: they are the \<^verbatim>\<open>extent\<close> of the image, the first two
  the limits of the x axis and the last two the limits of the y axis. The rows read must
  exist, and the colour limits must have been found, since they are computed first.
\<close>

theorem default_time_bounds:
  assumes "scores g = Some sc"
    and "tlim a = None"
    and "color_limits sc (vmin a) (vmax a) = Inr (lo, hi)"
    and "test_times g \<noteq> []" and "hd (test_times g) \<noteq> []" and "last (test_times g) \<noteq> []"
    and "train_times g \<noteq> []"
    and "bounds = [hd (hd (test_times g)), last (last (test_times g)),
                   hd (train_times g), last (train_times g)]"
  shows "time_limits g (tlim a) = Inr bounds
         \<and> Imshow sc bounds lo hi (cmap a) \<in> set (fst (plot_gat_matrix g a))
         \<and> Set_xlim [hd (hd (test_times g)), last (last (test_times g))]
             \<in> set (fst (plot_gat_matrix g a))
         \<and> Set_ylim [hd (train_times g), last (train_times g)]
             \<in> set (fst (plot_gat_matrix g a))"
proof -
  have t: "time_limits g (tlim a) = Inr bounds"
    using assms(2,4-8)
    by (simp add: time_limits_def Let_def bind_def first_nonempty final_nonempty)
  show ?thesis
    using t assms(1,3,8)
    by (simp add: plot_gat_matrix_def bind_def split: prod.splits)
qed

theorem default_time_bounds_witness:
  "scores gat_far = Some [[0.7, 0.8], [0.9, 0.6]]
   \<and> tlim matrix_defaults = None
   \<and> color_limits [[0.7, 0.8], [0.9, 0.6]] (vmin matrix_defaults) (vmax matrix_defaults)
       = Inr (0.6, 0.9)
   \<and> test_times gat_far \<noteq> [] \<and> hd (test_times gat_far) \<noteq> [] \<and> last (test_times gat_far) \<noteq> []
   \<and> train_times gat_far \<noteq> []
   \<and> time_limits gat_far (tlim matrix_defaults) = Inr [5, 6, 0, 1]
   \<and> Imshow [[0.7, 0.8], [0.9, 0.6]] [5, 6, 0, 1] 0.6 0.9 ''RdBu_r''
        \<in> set (fst (plot_gat_matrix gat_far matrix_defaults))
   \<and> Set_xlim [5, 6] \<in> set (fst (plot_gat_matrix gat_far matrix_defaults))
   \<and> Set_ylim [0, 1] \<in> set (fst (plot_gat_matrix gat_far matrix_defaults))"
proof -
  have h1: "scores gat_far = Some [[0.7, 0.8], [0.9, 0.6]]" by (simp add: input_defs)
  have h2: "tlim matrix_defaults = None" by (simp add: matrix_defaults_def)
  have h3: "color_limits [[0.7, 0.8], [0.9, 0.6]] (vmin matrix_defaults) (vmax matrix_defaults)
       = Inr (0.6, 0.9)"
    by (simp add: matrix_defaults_def color_limits_def bind_def np_min_def np_max_def)
  have h4: "test_times gat_far \<noteq> []" by (simp add: input_defs)
  have h5: "hd (test_times gat_far) \<noteq> []" by (simp add: input_defs)
  have h6: "last (test_times gat_far) \<noteq> []" by (simp add: input_defs)
  have h7: "train_times gat_far \<noteq> []" by (simp add: input_defs)
  have v: "test_times gat_far = [[5, 6], [5, 6]]" "train_times gat_far = [0, 1]"
    "cmap matrix_defaults = ''RdBu_r''"
    by (simp_all add: input_defs matrix_defaults_def)
  show ?thesis
    using h1 h2 h3 h4 h5 h6 h7 default_time_bounds [OF h1 h2 h3 h4 h5 h6 h7 refl] v by simp
qed

section \<open>The slice that is plotted\<close>

text \<open>
  C5. When every row of test times has exactly one entry, \<^verbatim>\<open>plot_gat_slice\<close> with
  \<^verbatim>\<open>train_time='diagonal'\<close> plots \<^verbatim>\<open>gat.scores_\<close> itself: the variable \<^verbatim>\<open>scores\<close> is the grid,
  whose entries in row order are the flattened grid. No nearest time is searched for:
  the value is the same whatever the training times and the step are.
\<close>

theorem single_column_used_directly:
  assumes "scores g = Some sc"
    and "\<forall>tts\<in>set (test_times g). length tts = 1"
    and "train_time a = PyStr ''diagonal''"
  shows "get_scores g sc (train_time a) = Inr (Grid sc)
         \<and> flat (Grid sc) = concat sc
         \<and> Plot (train_times g) (Grid sc) [(''color'', color a), (''label'', ''Classif. score'')]
             \<in> set (fst (plot_gat_slice g a))
         \<and> get_scores (g\<lparr>train_times := ts, train_step := st\<rparr>) sc (train_time a)
             = Inr (Grid sc)"
proof -
  have d: "diagonal_only (test_times g)" using assms(2) by (simp add: diagonal_only_iff)
  then have s: "get_scores g sc (train_time a) = Inr (Grid sc)"
    and s': "get_scores (g\<lparr>train_times := ts, train_step := st\<rparr>) sc (train_time a)
               = Inr (Grid sc)"
    by (simp_all add: get_scores_def)
  have "Plot (train_times g) (Grid sc) [(''color'', color a), (''label'', ''Classif. score'')]
             \<in> set (fst (plot_gat_slice g a))"
    using assms(1) s
    by (simp add: plot_gat_slice_def Let_def split: prod.splits sum.splits)
  with s s' show ?thesis by simp
qed

theorem single_column_used_directly_witness:
  "scores gat_column = Some [[0.7], [0.9]]
   \<and> list_all (\<lambda>tts. length tts = 1) (test_times gat_column)
   \<and> train_time slice_defaults = PyStr ''diagonal''
   \<and> get_scores gat_column [[0.7], [0.9]] (train_time slice_defaults) = Inr (Grid [[0.7], [0.9]])
   \<and> flat (Grid [[0.7], [0.9]]) = [0.7, 0.9]
   \<and> Plot [0, 1] (Grid [[0.7], [0.9]]) [(''color'', ''b''), (''label'', ''Classif. score'')]
        \<in> set (fst (plot_gat_slice gat_column slice_defaults))
   \<and> get_scores (gat_column\<lparr>train_times := [], train_step := 0\<rparr>) [[0.7], [0.9]]
         (train_time slice_defaults) = Inr (Grid [[0.7], [0.9]])"
proof -
  have h1: "scores gat_column = Some [[0.7], [0.9]]" by (simp add: input_defs)
  have h2: "\<forall>tts\<in>set (test_times gat_column). length tts = 1" by (simp add: input_defs)
  have h3: "train_time slice_defaults = PyStr ''diagonal''" by (simp add: slice_defaults_def)
  have v: "train_times gat_column = [0, 1]" "color slice_defaults = ''b''"
    by (simp_all add: input_defs slice_defaults_def)
  show ?thesis
    using h1 h2 h3 single_column_used_directly [OF h1 h2 h3, where ts = "[]" and st = 0] v
    by (simp add: list_all_iff)
qed

text \<open>
  C1. In the diagonal extraction no score should be taken at a test time farther than
  \<^verbatim>\<open>gat.train_times['step']\<close> from the training time of the row, and a row without a test
  time that close should keep the value 0. Line 163 compares the signed difference
  \<^verbatim>\<open>train_time - test_times[j]\<close> with the step, so a test time that lies after the
  training time passes whatever its distance: in \<open>gat_far\<close> every test time is more than
  one step away from every training time, and both rows still receive a score.
\<close>

theorem far_test_time_accepted:
  "get_scores gat_far [[0.7, 0.8], [0.9, 0.6]] (PyStr ''diagonal'') = Inr (Seq [0.7, 0.9])
   \<and> list_all (\<lambda>t. list_all (\<lambda>x. train_step gat_far < \<bar>x - t\<bar>) (concat (test_times gat_far)))
        (train_times gat_far)"
  by (simp add: run_defs input_defs diagonal_only_iff)

text \<open>
  C9. An \<^verbatim>\<open>int\<close> passed as \<^verbatim>\<open>train_time\<close> is refused with the "must be 'diagonal' or a
  float" error, also when it equals a training time: line 165 admits the types
  \<^verbatim>\<open>float\<close>, \<^verbatim>\<open>np.float64\<close> and \<^verbatim>\<open>np.float32\<close> only. This holds for every grid that is not a
  single column; the example passes 1, the second training time of \<open>gat_square\<close>, for
  which the float 1.0 selects the second row.
\<close>

theorem int_selector_rejected:
  assumes "scores g = Some sc"
    and "\<not> diagonal_only (test_times g)"
    and "train_time a = PyInt n"
  shows "get_scores g sc (train_time a) = Inl InvalidSelectorError
         \<and> plot_gat_slice g a = (snd (get_axes (ax a)), Inl InvalidSelectorError)"
  using assms by (simp add: get_scores_def plot_gat_slice_def split: prod.splits)

theorem int_selector_rejected_witness:
  "scores gat_square = Some [[0.7, 0.8], [0.9, 0.6]]
   \<and> \<not> diagonal_only (test_times gat_square)
   \<and> train_time (slice_defaults\<lparr>train_time := PyInt 1\<rparr>) = PyInt 1
   \<and> train_times gat_square ! 1 = of_int 1
   \<and> plot_gat_slice gat_square (slice_defaults\<lparr>train_time := PyInt 1\<rparr>)
       = ([Subplots], Inl InvalidSelectorError)
   \<and> get_scores gat_square [[0.7, 0.8], [0.9, 0.6]] (PyFloat 1) = Inr (Seq [0.9, 0.6])"
proof -
  have h1: "scores gat_square = Some [[0.7, 0.8], [0.9, 0.6]]" by (simp add: input_defs)
  have h2: "\<not> diagonal_only (test_times gat_square)" by (simp add: input_defs diagonal_only_iff)
  have h3: "train_time (slice_defaults\<lparr>train_time := PyInt 1\<rparr>) = PyInt 1" by simp
  have v: "train_times gat_square ! 1 = of_int 1"
    "get_scores gat_square [[0.7, 0.8], [0.9, 0.6]] (PyFloat 1) = Inr (Seq [0.9, 0.6])"
    "snd (get_axes (ax (slice_defaults\<lparr>train_time := PyInt 1\<rparr>))) = [Subplots]"
    by (simp_all add: input_defs run_defs diagonal_only_iff)
  show ?thesis
    using h1 h2 h3 int_selector_rejected [OF h1 h2 h3] v by simp
qed

text \<open>
  C10. In the diagonal extraction the inner loop runs over all rows of test times for
  each row \<open>i\<close> of scores and assigns \<^verbatim>\<open>scores[i]\<close> at every row that passes the check, so
  the value left in \<^verbatim>\<open>scores[i]\<close> is \<^verbatim>\<open>gat.scores_[i][j]\<close> for the index \<open>j\<close> nearest to the
  training time in the last row of test times that passes (0 when none passes), whether
  or not that row is row \<open>i\<close>. Stated for the inputs on which no read fails: no row of
  test times is empty, there is one row of scores per training time, and every index
  taken lies inside the row of scores it is read from. In \<open>gat_shifted\<close> the first row
  receives \<^verbatim>\<open>gat.scores_[0][1]\<close>, the index coming from the second row of test times; its
  own row of test times gives index 0.
\<close>

theorem diagonal_takes_last_passing_row:
  assumes "\<not> diagonal_only (test_times g)"
    and "\<forall>tts\<in>set (test_times g). tts \<noteq> []"
    and "length (train_times g) = length sc"
    and "\<forall>i<length sc. \<forall>tts\<in>set (test_times g). passes (train_step g) (train_times g ! i) tts
            \<longrightarrow> nearest tts (train_times g ! i) < length (sc ! i)"
  shows "get_scores g sc (PyStr ''diagonal'') =
           Inr (Seq (map (\<lambda>i. diagonal_value sc (train_step g) (test_times g) i (train_times g ! i))
                       [0..<length sc]))"
  using assms(1) diagonal_values[OF assms(2,3,4)] by (simp add: get_scores_def bind_def)

theorem diagonal_takes_last_passing_row_witness:
  "\<not> diagonal_only (test_times gat_shifted)
   \<and> list_all (\<lambda>tts. tts \<noteq> []) (test_times gat_shifted)
   \<and> length (train_times gat_shifted) = length [[0.1, 0.2], [0.3, 0.4, 0.5::real]]
   \<and> get_scores gat_shifted [[0.1, 0.2], [0.3, 0.4, 0.5]] (PyStr ''diagonal'') = Inr (Seq [0.2, 0.5])
   \<and> nearest (test_times gat_shifted ! 0) (train_times gat_shifted ! 0) = 0
   \<and> nearest (last (test_times gat_shifted)) (train_times gat_shifted ! 0) = 1"
proof -
  let ?sc = "[[0.1, 0.2], [0.3, 0.4, 0.5::real]]"
  have h1: "\<not> diagonal_only (test_times gat_shifted)"
    by (simp add: input_defs diagonal_only_iff)
  have h2: "\<forall>tts\<in>set (test_times gat_shifted). tts \<noteq> []" by (simp add: input_defs)
  have h3: "length (train_times gat_shifted) = length ?sc" by (simp add: input_defs)
  have h4: "\<forall>i<length ?sc. \<forall>tts\<in>set (test_times gat_shifted).
              passes (train_step gat_shifted) (train_times gat_shifted ! i) tts
              \<longrightarrow> nearest tts (train_times gat_shifted ! i) < length (?sc ! i)"
    by (simp add: input_defs passes_def nearest_def argmin_def abs_diff_def All_less_Suc)
  have v: "map (\<lambda>i. diagonal_value ?sc (train_step gat_shifted) (test_times gat_shifted) i
                     (train_times gat_shifted ! i)) [0..<length ?sc] = [0.2, 0.5]"
    "nearest (test_times gat_shifted ! 0) (train_times gat_shifted ! 0) = 0"
    "nearest (last (test_times gat_shifted)) (train_times gat_shifted ! 0) = 1"
    by (simp_all add: input_defs diagonal_value_def passes_def nearest_def argmin_def abs_diff_def)
  show ?thesis
    using h1 h2 h3 diagonal_takes_last_passing_row [OF h1 h2 h3 h4] v
    by (simp add: list_all_iff)
qed

text \<open>
  C4, as the code has it. Let the selector be of type \<^verbatim>\<open>float\<close>, \<^verbatim>\<open>np.float64\<close> or
  \<^verbatim>\<open>np.float32\<close>, let \<open>idx\<close> be the index of the training time closest to it, and let
  there be one row of scores per training time. When every row of test times has exactly
  one entry, the selector is not looked at and the whole grid is taken (line 152 comes
  first). Otherwise the call fails with the "no classifier trained at" error when
  \<open>idx\<close> is 0, having made no call but the creation of the axes, and takes exactly the
  row \<^verbatim>\<open>gat.scores_[idx]\<close> when \<open>idx\<close> is not 0.
\<close>

theorem float_selector_row:
  assumes "scores g = Some sc"
    and "length sc = length (train_times g)"
    and "float_value (train_time a) = Some x"
    and "closest_index (train_times g) x idx"
  shows "(diagonal_only (test_times g) \<longrightarrow> get_scores g sc (train_time a) = Inr (Grid sc))
         \<and> (\<not> diagonal_only (test_times g) \<and> idx = 0 \<longrightarrow>
            plot_gat_slice g a = (snd (get_axes (ax a)), Inl (NoClassifierAtTimeError x)))
         \<and> (\<not> diagonal_only (test_times g) \<and> idx \<noteq> 0 \<longrightarrow>
            get_scores g sc (train_time a) = Inr (Seq (sc ! idx))
            \<and> Plot (train_times g) (Seq (sc ! idx))
                 [(''color'', color a), (''label'', ''Classif. score'')]
                 \<in> set (fst (plot_gat_slice g a)))"
proof -
  have sel: "train_time a \<noteq> PyStr ''diagonal''" using assms(3) by auto
  have am: "argmin (abs_diff (train_times g) x) = Inr idx"
    using assms(4) by (simp add: argmin_closest)
  have rng: "idx < length sc" using assms(2,4) by (simp add: closest_index_def)
  have gs: "get_scores g sc (train_time a) =
              (if diagonal_only (test_times g) then Inr (Grid sc)
               else if idx = 0 then Inl (NoClassifierAtTimeError x) else Inr (Seq (sc ! idx)))"
    using assms(3) sel am rng by (simp add: get_scores_def bind_def item_def)
  show ?thesis
    using assms(1) gs
    by (simp add: plot_gat_slice_def Let_def split: prod.splits sum.splits)
qed

theorem float_selector_row_witness:
  "get_scores gat_column [[0.7], [0.9]] (PyFloat 0.2) = Inr (Grid [[0.7], [0.9]])
   \<and> closest_index (train_times gat_square) 0.2 0
   \<and> plot_gat_slice gat_square (slice_defaults\<lparr>train_time := PyFloat 0.2\<rparr>)
       = ([Subplots], Inl (NoClassifierAtTimeError 0.2))
   \<and> closest_index (train_times gat_square) 0.9 1
   \<and> get_scores gat_square [[0.7, 0.8], [0.9, 0.6]] (NpFloat64 0.9) = Inr (Seq [0.9, 0.6])
   \<and> Plot [0, 1] (Seq [0.9, 0.6]) [(''color'', ''b''), (''label'', ''Classif. score'')]
        \<in> set (fst (plot_gat_slice gat_square (slice_defaults\<lparr>train_time := NpFloat64 0.9\<rparr>)))"
proof -
  let ?sc = "[[0.7, 0.8], [0.9, 0.6::real]]"
  let ?col = "[[0.7], [0.9::real]]"
  have h1: "scores gat_square = Some ?sc" by (simp add: input_defs)
  have h2: "length ?sc = length (train_times gat_square)" by (simp add: input_defs)
  have k1: "scores gat_column = Some ?col" by (simp add: input_defs)
  have k2: "length ?col = length (train_times gat_column)" by (simp add: input_defs)
  have f0: "float_value (train_time (slice_defaults\<lparr>train_time := PyFloat 0.2\<rparr>)) = Some 0.2"
    by simp
  have f1: "float_value (train_time (slice_defaults\<lparr>train_time := NpFloat64 0.9\<rparr>)) = Some 0.9"
    by simp
  have c0: "closest_index (train_times gat_square) 0.2 0"
    by (simp add: input_defs closest_index_def)
  have c1: "closest_index (train_times gat_square) 0.9 1"
    by (simp add: input_defs closest_index_def)
  have c2: "closest_index (train_times gat_column) 0.2 0"
    by (simp add: input_defs closest_index_def)
  have d: "\<not> diagonal_only (test_times gat_square)" "diagonal_only (test_times gat_column)"
    by (simp_all add: input_defs diagonal_only_iff)
  have v: "train_times gat_square = [0, 1]"
    "snd (get_axes (ax (slice_defaults\<lparr>train_time := PyFloat 0.2\<rparr>))) = [Subplots]"
    "color (slice_defaults\<lparr>train_time := NpFloat64 0.9\<rparr>) = ''b''"
    by (simp_all add: input_defs get_axes_def slice_defaults_def)
  show ?thesis
    using c0 c1 d float_selector_row [OF k1 k2 f0 c2]
      float_selector_row [OF h1 h2 f0 c0] float_selector_row [OF h1 h2 f1 c1] v
    by simp
qed

text \<open>
  The statement of C4 for every grid fails on a single column: on \<open>gat_column\<close> the
  selector 0.2, whose closest training time has index 0, raises nothing, and the selector
  0.9, whose closest training time has index 1, gives the whole grid, not its second row.
\<close>

theorem float_selector_on_single_column:
  "closest_index (train_times gat_column) 0.2 0
   \<and> snd (plot_gat_slice gat_column (slice_defaults\<lparr>train_time := PyFloat 0.2\<rparr>))
       = Inr (Figure_of Created)
   \<and> closest_index (train_times gat_column) 0.9 1
   \<and> get_scores gat_column [[0.7], [0.9]] (PyFloat 0.9) = Inr (Grid [[0.7], [0.9]])"
  by (simp add: run_defs input_defs diagonal_only_iff closest_index_def)

text \<open>
  C6, as the code has it. \<^verbatim>\<open>plot_gat_slice\<close> raises the "train_time must be 'diagonal' or a
  float" error exactly when the scores exist, not every row of test times has exactly
  one entry, and the selector is neither the string \<^verbatim>\<open>'diagonal'\<close> nor of type \<^verbatim>\<open>float\<close>,
  \<^verbatim>\<open>np.float64\<close> or \<^verbatim>\<open>np.float32\<close>. No other part of the function raises this error.
\<close>

theorem invalid_selector_exactly:
  "snd (plot_gat_slice g a) = Inl InvalidSelectorError \<longleftrightarrow>
     (scores g \<noteq> None \<and> \<not> diagonal_only (test_times g)
      \<and> train_time a \<noteq> PyStr ''diagonal'' \<and> float_value (train_time a) = None)"
proof (cases "scores g")
  case None
  then show ?thesis by (simp add: plot_gat_slice_def)
next
  case (Some sc)
  show ?thesis
  proof (cases "get_scores g sc (train_time a)")
    case (Inl e)
    then have "snd (plot_gat_slice g a) = Inl e"
      using Some by (simp add: plot_gat_slice_def split: prod.splits)
    then show ?thesis using Some Inl get_scores_invalid[of g sc "train_time a"] by auto
  next
    case (Inr s)
    have "snd (plot_gat_slice g a) \<noteq> Inl InvalidSelectorError"
      using Some Inr
      by (auto simp: plot_gat_slice_def Let_def split: prod.splits sum.splits
               dest: find_chance_error y_limits_error)
    then show ?thesis using Some Inr get_scores_invalid[of g sc "train_time a"] by auto
  qed
qed

theorem invalid_selector_exactly_witness:
  "snd (plot_gat_slice gat_square (slice_defaults\<lparr>train_time := PyStr ''unsupported-string''\<rparr>))
     = Inl InvalidSelectorError
   \<and> snd (plot_gat_slice gat_square (slice_defaults\<lparr>train_time := PyNone\<rparr>))
     = Inl InvalidSelectorError"
proof -
  have h: "scores gat_square \<noteq> None" "\<not> diagonal_only (test_times gat_square)"
    by (simp_all add: input_defs diagonal_only_iff)
  show ?thesis
    using h invalid_selector_exactly [of gat_square "slice_defaults\<lparr>train_time := PyStr ''unsupported-string''\<rparr>"]
      invalid_selector_exactly [of gat_square "slice_defaults\<lparr>train_time := PyNone\<rparr>"]
    by simp
qed

text \<open>
  The statement of C6 with "neither 'diagonal' nor numeric" fails in both directions:
  on the single column \<open>gat_column\<close> an unsupported string raises nothing, and on
  \<open>gat_square\<close> the number 1, passed as an \<^verbatim>\<open>int\<close>, raises the error.
\<close>

theorem selector_ignored_on_single_column:
  "snd (plot_gat_slice gat_column (slice_defaults\<lparr>train_time := PyStr ''unsupported-string''\<rparr>))
     = Inr (Figure_of Created)
   \<and> snd (plot_gat_slice gat_square (slice_defaults\<lparr>train_time := PyInt 1\<rparr>))
     = Inl InvalidSelectorError"
  by (simp add: run_defs input_defs diagonal_only_iff)

section \<open>The chance level\<close>

text \<open>
  C2. A float passed as \<^verbatim>\<open>chance\<close> should give a dashed horizontal line labelled
  "Chance level" at that value, as \<^verbatim>\<open>chance=True\<close> does at the estimated value. The call
  of \<^verbatim>\<open>ax.axhline\<close> (line 185) is inside the block of \<^verbatim>\<open>if chance is True\<close>, so with
  \<^verbatim>\<open>chance=0.3\<close> no line is drawn, while \<^verbatim>\<open>chance=True\<close> draws one at 0.25.
\<close>

theorem float_chance_draws_no_line:
  "fst (plot_gat_slice gat_square (slice_defaults\<lparr>chance := PyFloat 0.3\<rparr>)) =
     [Subplots,
      Plot [0, 1] (Seq [0.7, 0.6]) [(''color'', ''b''), (''label'', ''Classif. score'')],
      Set_ylim [0.6, 0.7], Set_xlabel ''Time (s)'', Set_ylabel ''Classif. score (%)'',
      Legend [(''loc'', ''best'')], Show]
   \<and> fst (plot_gat_slice gat_square (slice_defaults\<lparr>chance := PyBool True\<rparr>)) =
     [Subplots,
      Plot [0, 1] (Seq [0.7, 0.6]) [(''color'', ''b''), (''label'', ''Classif. score'')],
      Axhline (Num 0.25) [(''color'', ''k''), (''linestyle'', ''--''), (''label'', ''Chance level'')],
      Set_ylim [0.6, 0.7], Set_xlabel ''Time (s)'', Set_ylabel ''Classif. score (%)'',
      Legend [(''loc'', ''best'')], Show]"
  by (simp add: run_defs input_defs diagonal_only_iff)

text \<open>
  C3. With \<^verbatim>\<open>chance=True\<close>, once the slice has been extracted: for the scorer named
  \<^verbatim>\<open>accuracy_score\<close> (and at least one training label) the line is drawn at 1 over the
  number of distinct labels, 0.25 for four of them; for the scorer named
  \<^verbatim>\<open>roc_auc_score\<close> it is drawn at 0.5; for any other scorer a warning is issued, the level
  is NaN, \<^verbatim>\<open>ax.axhline\<close> is called with NaN and with no number, and the call ends as it
  does without a chance level.
\<close>

theorem chance_level_estimate:
  assumes "scores g = Some sc"
    and "get_scores g sc (train_time a) = Inr s"
    and "chance a = PyBool True"
  shows "(scorer_name g = ''accuracy_score'' \<and> y_train g \<noteq> [] \<longrightarrow>
            Axhline (Num (1 / real (card (set (y_train g)))))
              [(''color'', ''k''), (''linestyle'', ''--''), (''label'', ''Chance level'')]
              \<in> set (fst (plot_gat_slice g a)))
         \<and> (scorer_name g = ''roc_auc_score'' \<longrightarrow>
            Axhline (Num 0.5)
              [(''color'', ''k''), (''linestyle'', ''--''), (''label'', ''Chance level'')]
              \<in> set (fst (plot_gat_slice g a)))
         \<and> (scorer_name g \<noteq> ''accuracy_score'' \<and> scorer_name g \<noteq> ''roc_auc_score'' \<longrightarrow>
            Warn (''Cannot find chance level from '' @ scorer_arg_name g
                  @ '', specify chance level'') \<in> set (fst (plot_gat_slice g a))
            \<and> Axhline NaN
                [(''color'', ''k''), (''linestyle'', ''--''), (''label'', ''Chance level'')]
                \<in> set (fst (plot_gat_slice g a))
            \<and> (\<forall>x kw. Axhline (Num x) kw \<notin> set (fst (plot_gat_slice g a)))
            \<and> snd (plot_gat_slice g a) = snd (plot_gat_slice g (a\<lparr>chance := PyBool False\<rparr>)))"
proof (intro conjI impI)
  assume acc: "scorer_name g = ''accuracy_score'' \<and> y_train g \<noteq> []"
  then have n: "card (set (y_train g)) \<noteq> 0" by (simp add: card_eq_0_iff)
  have "find_chance g (chance a) =
          Inr [Axhline (Num (1 / real (card (set (y_train g)))))
                [(''color'', ''k''), (''linestyle'', ''--''), (''label'', ''Chance level'')]]"
    using acc n assms(3)
    by (simp add: find_chance_def estimate_chance_def bind_def length_np_unique)
  then show "Axhline (Num (1 / real (card (set (y_train g)))))
              [(''color'', ''k''), (''linestyle'', ''--''), (''label'', ''Chance level'')]
              \<in> set (fst (plot_gat_slice g a))"
    using assms(1,2)
    by (simp add: plot_gat_slice_def Let_def split: prod.splits sum.splits)
next
  assume auc: "scorer_name g = ''roc_auc_score''"
  have "find_chance g (chance a) =
          Inr [Axhline (Num 0.5)
                [(''color'', ''k''), (''linestyle'', ''--''), (''label'', ''Chance level'')]]"
    using auc assms(3) by (simp add: find_chance_def estimate_chance_def bind_def)
  then show "Axhline (Num 0.5)
              [(''color'', ''k''), (''linestyle'', ''--''), (''label'', ''Chance level'')]
              \<in> set (fst (plot_gat_slice g a))"
    using assms(1,2)
    by (simp add: plot_gat_slice_def Let_def split: prod.splits sum.splits)
next
  assume other: "scorer_name g \<noteq> ''accuracy_score'' \<and> scorer_name g \<noteq> ''roc_auc_score''"
  have fc: "find_chance g (chance a) =
          Inr [Warn (''Cannot find chance level from '' @ scorer_arg_name g
                     @ '', specify chance level''),
               Axhline NaN
                [(''color'', ''k''), (''linestyle'', ''--''), (''label'', ''Chance level'')]]"
    using other assms(3) by (simp add: find_chance_def estimate_chance_def bind_def)
  show "Warn (''Cannot find chance level from '' @ scorer_arg_name g
                  @ '', specify chance level'') \<in> set (fst (plot_gat_slice g a))"
    using assms(1,2) fc
    by (simp add: plot_gat_slice_def Let_def split: prod.splits sum.splits)
  show "Axhline NaN
                [(''color'', ''k''), (''linestyle'', ''--''), (''label'', ''Chance level'')]
                \<in> set (fst (plot_gat_slice g a))"
    using assms(1,2) fc
    by (simp add: plot_gat_slice_def Let_def split: prod.splits sum.splits)
  show "\<forall>x kw. Axhline (Num x) kw \<notin> set (fst (plot_gat_slice g a))"
    using assms(1,2) fc
    by (auto simp: plot_gat_slice_def Let_def decorate_def get_axes_def
             split: prod.splits sum.splits option.splits if_splits)
  show "snd (plot_gat_slice g a) = snd (plot_gat_slice g (a\<lparr>chance := PyBool False\<rparr>))"
    using assms(1,2) fc
    by (simp add: plot_gat_slice_def Let_def find_chance_def split: prod.splits sum.splits)
qed

theorem chance_level_estimate_witness:
  "Axhline (Num 0.25) [(''color'', ''k''), (''linestyle'', ''--''), (''label'', ''Chance level'')]
     \<in> set (fst (plot_gat_slice gat_square slice_defaults))
   \<and> Axhline (Num 0.5) [(''color'', ''k''), (''linestyle'', ''--''), (''label'', ''Chance level'')]
     \<in> set (fst (plot_gat_slice (gat_square\<lparr>scorer_name := ''roc_auc_score''\<rparr>) slice_defaults))
   \<and> Warn ''Cannot find chance level from f1_score, specify chance level''
     \<in> set (fst (plot_gat_slice
                 (gat_square\<lparr>scorer_name := ''f1_score'', scorer_arg_name := ''f1_score''\<rparr>)
                 slice_defaults))
   \<and> Axhline NaN [(''color'', ''k''), (''linestyle'', ''--''), (''label'', ''Chance level'')]
     \<in> set (fst (plot_gat_slice
                 (gat_square\<lparr>scorer_name := ''f1_score'', scorer_arg_name := ''f1_score''\<rparr>)
                 slice_defaults))
   \<and> snd (plot_gat_slice
            (gat_square\<lparr>scorer_name := ''f1_score'', scorer_arg_name := ''f1_score''\<rparr>)
            slice_defaults) = Inr (Figure_of Created)"
proof -
  let ?sc = "[[0.7, 0.8], [0.9, 0.6::real]]"
  let ?auc = "gat_square\<lparr>scorer_name := ''roc_auc_score''\<rparr>"
  let ?f1 = "gat_square\<lparr>scorer_name := ''f1_score'', scorer_arg_name := ''f1_score''\<rparr>"
  have s: "scores gat_square = Some ?sc" "scores ?auc = Some ?sc" "scores ?f1 = Some ?sc"
    by (simp_all add: input_defs)
  have e: "get_scores gat_square ?sc (train_time slice_defaults) = Inr (Seq [0.7, 0.6])"
    "get_scores ?auc ?sc (train_time slice_defaults) = Inr (Seq [0.7, 0.6])"
    "get_scores ?f1 ?sc (train_time slice_defaults) = Inr (Seq [0.7, 0.6])"
    by (simp_all add: input_defs run_defs diagonal_only_iff)
  have c: "chance slice_defaults = PyBool True" by (simp add: slice_defaults_def)
  have u: "card (set (y_train gat_square)) = 4"
    unfolding card_set by (simp add: input_defs)
  have n: "scorer_name gat_square = ''accuracy_score''" "y_train gat_square \<noteq> []"
    "scorer_name ?auc = ''roc_auc_score''"
    "scorer_name ?f1 = ''f1_score''" "scorer_arg_name ?f1 = ''f1_score''"
    by (simp_all add: input_defs)
  have r: "snd (plot_gat_slice (?f1) (slice_defaults\<lparr>chance := PyBool False\<rparr>))
             = Inr (Figure_of Created)"
    by (simp add: input_defs run_defs diagonal_only_iff)
  show ?thesis
    using chance_level_estimate [OF s(1) e(1) c] chance_level_estimate [OF s(2) e(2) c]
      chance_level_estimate [OF s(3) e(3) c] u n r
    by simp
qed

end
